theory Spec2Isabelle
  imports Main
begin

section \<open>JavaScript values and string primitives\<close>

text \<open>
  A JavaScript string is modelled as an Isabelle \<open>string\<close>: a list of 8-bit characters,
  read as the code units U+0000 .. U+00FF. The values stored in a \<open>types\<close> array are
  strings, \<open>undefined\<close> and arrays of those, so they get a small datatype of their own.
  An exception is a value of type \<open>error\<close>; a function that can throw returns
  \<open>error + 'a\<close> with \<open>Inl\<close> for the exception.
\<close>

datatype jsval = JUndefined | JString string | JArray "jsval list"

datatype error = Error string | TypeError

text \<open>
  A value of the enumeration \<open>ts.SyntaxKind\<close> is represented by its name, the string
  that \<open>ts.SyntaxKind[kind]\<close> evaluates to.
\<close>

type_synonym syntax_kind = string

text \<open>\<open>xs.join(sep)\<close> on an array of strings.\<close>

fun join :: "string \<Rightarrow> string list \<Rightarrow> string" where
  "join sep [] = []"
| "join sep [x] = x"
| "join sep (x # y # ys) = x @ sep @ join sep (y # ys)"

text \<open>
  The character class \<open>\s\<close> of a regular expression, which is also the set of
  characters that \<open>String.prototype.trim\<close> strips: tab, line feed, vertical tab, form
  feed, carriage return, space and no-break space (the members below U+0100).
\<close>

definition isWhiteSpace :: "char \<Rightarrow> bool" where
  "isWhiteSpace c \<longleftrightarrow>
     c \<in> set [CHR 0x09, CHR 0x0A, CHR 0x0B, CHR 0x0C, CHR 0x0D, CHR 0x20, CHR 0xA0]"

text \<open>The characters that \<open>.\<close> in a regular expression does not match.\<close>

definition isLineTerminator :: "char \<Rightarrow> bool" where
  "isLineTerminator c \<longleftrightarrow> c = CHR 0x0A \<or> c = CHR 0x0D"

definition trim :: "string \<Rightarrow> string" where
  "trim s = rev (dropWhile isWhiteSpace (rev (dropWhile isWhiteSpace s)))"

text \<open>\<open>s.slice(pos, end)\<close> for non-negative indices.\<close>

definition slice :: "string \<Rightarrow> nat \<Rightarrow> nat \<Rightarrow> string" where
  "slice s start stop = take (stop - start) (drop start s)"

text \<open>
  \<open>s.split(/\r?\n/)\<close>: a line feed ends a line, and a carriage return right before
  it belongs to the separator. The result always has at least one element.
\<close>

fun split_lines :: "string \<Rightarrow> string list" where
  "split_lines [] = [[]]"
| "split_lines [c] = (if c = CHR 0x0A then [[], []] else [[c]])"
| "split_lines (c # d # cs) =
     (if c = CHR 0x0A then [] # split_lines (d # cs)
      else if c = CHR 0x0D \<and> d = CHR 0x0A then [] # split_lines cs
      else (let r = split_lines (d # cs) in (c # hd r) # tl r))"

text \<open>
  \<open>line.match(/^\s*\/\/(.+?)$/)\<close>: \<open>None\<close> for \<open>null\<close>, otherwise the text of
  the capture group. The leading white space is the longest run of white space, since
  a slash is not white space; the group must hold at least one character and no line
  terminator, and it reaches to the end of the string (there is no \<open>m\<close> flag).
\<close>

definition commentMatch :: "string \<Rightarrow> string option" where
  "commentMatch line =
     (let rest = dropWhile isWhiteSpace line in
      if take 2 rest = ''//'' \<and> drop 2 rest \<noteq> [] \<and> \<not> list_ex isLineTerminator (drop 2 rest)
      then Some (drop 2 rest) else None)"

text \<open>\<open>line.match(/^\s*$/)\<close> as a truth value.\<close>

definition blankMatch :: "string \<Rightarrow> bool" where
  "blankMatch line = list_all isWhiteSpace line"

section \<open>The syntax tree\<close>

text \<open>
  The parser is outside the repository; its tree is given. An entity name is an
  identifier or a qualified name \<open>left.right\<close>, whose right side is an identifier;
  identifiers are given by their \<open>escapedText\<close>.
\<close>

datatype entity_name = Identifier string | QualifiedName entity_name string

text \<open>
  A type node: its \<open>kind\<close>, the member list \<open>types\<close> of a union (or intersection),
  the \<open>typeName\<close> of a type reference and the kind of the \<open>literal\<close> of a literal
  type. A field the node does not have is \<open>None\<close> (\<open>undefined\<close>).
\<close>

datatype type_node =
  TypeNode (type_kind: syntax_kind) (type_types: "type_node list option")
    (type_typeName: "entity_name option") (type_literal: "syntax_kind option")

text \<open>
  A node in name position. Only an identifier has an \<open>escapedText\<close>; for a string
  literal, a computed name or a binding pattern the field is \<open>undefined\<close>.
\<close>

datatype name_node = Name (escapedText: "string option")

text \<open>
  Every node has the span \<open>pos\<close>, \<open>end\<close>. A declaration has a \<open>name\<close> and a
  \<open>type\<close> annotation, either of which may be missing. Properties and parameters
  carry a \<open>questionToken\<close> (here: whether there is one); constructors and functions
  carry \<open>parameters\<close>; interfaces and classes carry \<open>members\<close>.
\<close>

record ts_node =
  pos :: nat
  endpos :: nat

record decl_node = ts_node +
  name :: "name_node option"
  type :: "type_node option"

record member_node = decl_node +
  questionToken :: bool

record signature_node = decl_node +
  parameters :: "member_node list"

datatype member =
    PropertySignature member_node
  | Constructor signature_node
  | PropertyDeclaration member_node
  | OtherMember syntax_kind

record members_node = decl_node +
  members :: "member list"

text \<open>
  Statements by kind. The \<open>body\<close> of a module declaration is a module block for
  \<open>namespace A { }\<close>, another module declaration for \<open>namespace A.B { }\<close>, and missing
  for \<open>declare module "m";\<close>. A node given to the structure walker has a \<open>kind\<close> and
  \<open>statements\<close>.
\<close>

datatype statement =
    InterfaceDeclaration members_node
  | ClassDeclaration members_node
  | FunctionDeclaration signature_node
  | ModuleDeclaration "node option"
  | OtherStatement syntax_kind
and node = Node (node_kind: syntax_kind) (node_statements: "statement list")

section \<open>Type-name resolution\<close>

text \<open>
  \<open>extractTypeName\<close>. An empty \<open>escapedText\<close> is falsy, so an identifier with no text
  falls through to the end of the function, which returns the empty \<open>result\<close>.
\<close>

fun extractTypeName :: "entity_name \<Rightarrow> string" where
  "extractTypeName (Identifier txt) = (if txt \<noteq> [] then txt else [])"
| "extractTypeName (QualifiedName (QualifiedName ll lr) r) =
     (let result = [];
          result = result @ extractTypeName ll;
          result = result @ ''.'' @ extractTypeName (Identifier lr);
          result = (if result \<noteq> [] then result @ ''.'' else result)
      in result @ r)"
| "extractTypeName (QualifiedName (Identifier l) r) =
     (let result = [];
          result = (if result \<noteq> [] then result @ ''.'' else result);
          result = result @ l;
          result = (if result \<noteq> [] then result @ ''.'' else result)
      in result @ r)"

section \<open>The comment associator\<close>

text \<open>
  \<open>extractNodeComments\<close>. The loop over the lines carries the array \<open>comments\<close> and
  the two flags; \<open>break\<close> returns the array as it is. The function appends to the
  array it is given and returns the wrapped text, so the model returns both. The
  function \<open>wrap\<close> of the package \<open>word-wrap\<close> is a parameter, applied to the text and
  the width.
\<close>

fun extractNodeComments_lines ::
  "string list \<Rightarrow> string list \<Rightarrow> bool \<Rightarrow> bool \<Rightarrow> string list" where
  "extractNodeComments_lines [] comments seenComment lineBreak = comments"
| "extractNodeComments_lines (line # rest) comments seenComment lineBreak =
     (case commentMatch line of
        Some captured \<Rightarrow>
          extractNodeComments_lines rest
            (if \<not> lineBreak \<and> length comments \<noteq> 0
             then comments[length comments - 1 :=
                    comments ! (length comments - 1) @ '' '' @ trim captured]
             else comments @ [trim captured])
            True False
      | None \<Rightarrow>
          if blankMatch line then extractNodeComments_lines rest comments seenComment True
          else if \<not> lineBreak \<and> seenComment then comments
          else extractNodeComments_lines rest comments seenComment lineBreak)"

definition extractNodeComments ::
  "(string \<Rightarrow> nat \<Rightarrow> string) \<Rightarrow> string \<Rightarrow> 'a ts_node_scheme \<Rightarrow> string list
     \<Rightarrow> string list \<times> string" where
  "extractNodeComments wrap sourceBody node comments =
     (let comments' =
            extractNodeComments_lines
              (split_lines (slice sourceBody (pos node) (endpos node))) comments False False
      in (comments', wrap (join ''\<newline>\<newline>'' comments') 80))"

section \<open>The extracted metadata\<close>

record field_meta =
  optional :: bool
  types :: "jsval list"
  comments :: "string list"

text \<open>A field is the pair of a name, which may be \<open>undefined\<close>, and its metadata.\<close>

type_synonym field = "string option \<times> field_meta"

datatype constructor_meta =
  ConstructorMeta (cm_params: "field list") (cm_comments: "string list")

text \<open>
  The three shapes of metadata object. Reading a property an object does not have
  gives \<open>undefined\<close>; \<open>constructorMeta\<close> of a class without constructor is \<open>null\<close>.
  Both are \<open>None\<close> here, since the code only tests them for truthiness.
\<close>

datatype meta =
    InterfaceMeta "string option" "field list"
  | ClassMeta "string option" "constructor_meta option" "field list"
  | FunctionMeta "string option" "field list" "jsval list"

fun meta_name :: "meta \<Rightarrow> string option" where
  "meta_name (InterfaceMeta n props) = n"
| "meta_name (ClassMeta n constructorMeta props) = n"
| "meta_name (FunctionMeta n params returnTypes) = n"

fun meta_constructorMeta :: "meta \<Rightarrow> constructor_meta option" where
  "meta_constructorMeta (InterfaceMeta n props) = None"
| "meta_constructorMeta (ClassMeta n constructorMeta props) = constructorMeta"
| "meta_constructorMeta (FunctionMeta n params returnTypes) = None"

fun meta_params :: "meta \<Rightarrow> field list option" where
  "meta_params (InterfaceMeta n props) = None"
| "meta_params (ClassMeta n constructorMeta props) = None"
| "meta_params (FunctionMeta n params returnTypes) = Some params"

fun meta_props :: "meta \<Rightarrow> field list option" where
  "meta_props (InterfaceMeta n props) = Some props"
| "meta_props (ClassMeta n constructorMeta props) = Some props"
| "meta_props (FunctionMeta n params returnTypes) = None"

type_synonym entry = "string \<times> meta"

section \<open>Member extraction\<close>

text \<open>
  \<open>keywordMap\<close>, and the lookup \<open>keywordMap[ts.SyntaxKind[kind]]\<close>, which is
  \<open>undefined\<close> for a name that is not a key.
\<close>

definition keywordMap :: "(string \<times> string) list" where
  "keywordMap =
     [(''StringKeyword'', ''string''),
      (''NumberKeyword'', ''number''),
      (''BooleanKeyword'', ''boolean''),
      (''NullKeyword'', ''null''),
      (''UndefinedKeyword'', ''undefined''),
      (''ObjectKeyword'', ''object'')]"

definition keywordLookup :: "syntax_kind \<Rightarrow> jsval" where
  "keywordLookup k = (case map_of keywordMap k of None \<Rightarrow> JUndefined | Some s \<Rightarrow> JString s)"

text \<open>
  \<open>extractNodeTypes\<close>. The loop over the members of a union pushes each resolved
  name as it is; the branch for a single type pushes a one-element array. Reading
  \<open>node.type.types\<close> of a node with no type annotation throws a \<open>TypeError\<close>.
\<close>

fun extractNodeTypes_union :: "type_node list \<Rightarrow> jsval list \<Rightarrow> jsval list" where
  "extractNodeTypes_union [] nodeTypes = nodeTypes"
| "extractNodeTypes_union (t # ts) nodeTypes =
     extractNodeTypes_union ts
       (case type_typeName t of
          Some typeName \<Rightarrow> nodeTypes @ [JString (extractTypeName typeName)]
        | None \<Rightarrow>
            (case type_literal t of
               Some literal_kind \<Rightarrow> nodeTypes @ [keywordLookup literal_kind]
             | None \<Rightarrow> nodeTypes @ [keywordLookup (type_kind t)]))"

definition extractNodeTypes :: "'a decl_node_scheme \<Rightarrow> error + jsval list" where
  "extractNodeTypes node =
     (case type node of
        None \<Rightarrow> Inl TypeError
      | Some t \<Rightarrow>
          (case type_types t of
             Some ts \<Rightarrow> Inr (extractNodeTypes_union ts [])
           | None \<Rightarrow>
               (case type_typeName t of
                  Some typeName \<Rightarrow> Inr [JArray [JString (extractTypeName typeName)]]
                | None \<Rightarrow>
                    (case type_literal t of
                       Some literal_kind \<Rightarrow> Inr [JArray [keywordLookup literal_kind]]
                     | None \<Rightarrow> Inr [JArray [keywordLookup (type_kind t)]]))))"

text \<open>
  \<open>extractNodeMeta\<close>. The value that \<open>extractNodeComments\<close> returns is dropped; the
  metadata holds the array that the call filled.
\<close>

definition extractNodeMeta ::
  "(string \<Rightarrow> nat \<Rightarrow> string) \<Rightarrow> string \<Rightarrow> member_node \<Rightarrow> error + field" where
  "extractNodeMeta wrap sourceBody node =
     (case name node of
        None \<Rightarrow> Inl TypeError
      | Some n \<Rightarrow>
          (case extractNodeTypes node of
             Inl e \<Rightarrow> Inl e
           | Inr nodeTypes \<Rightarrow>
               Inr (escapedText n,
                    \<lparr>optional = questionToken node,
                     types = nodeTypes,
                     comments = fst (extractNodeComments wrap sourceBody node [])\<rparr>)))"

section \<open>Declaration extraction\<close>

text \<open>The loop \<open>for (const param of parameters) params.push(this.extractNodeMeta(param))\<close>.\<close>

fun extractParameters ::
  "(string \<Rightarrow> nat \<Rightarrow> string) \<Rightarrow> string \<Rightarrow> member_node list \<Rightarrow> field list
     \<Rightarrow> error + field list" where
  "extractParameters wrap sourceBody [] params = Inr params"
| "extractParameters wrap sourceBody (param # rest) params =
     (case extractNodeMeta wrap sourceBody param of
        Inl e \<Rightarrow> Inl e
      | Inr m \<Rightarrow> extractParameters wrap sourceBody rest (params @ [m]))"

fun extractInterface_members ::
  "(string \<Rightarrow> nat \<Rightarrow> string) \<Rightarrow> string \<Rightarrow> member list \<Rightarrow> field list
     \<Rightarrow> error + field list" where
  "extractInterface_members wrap sourceBody [] interfaceProps = Inr interfaceProps"
| "extractInterface_members wrap sourceBody (m # rest) interfaceProps =
     (case m of
        PropertySignature p \<Rightarrow>
          (case extractNodeMeta wrap sourceBody p of
             Inl e \<Rightarrow> Inl e
           | Inr f \<Rightarrow> extractInterface_members wrap sourceBody rest (interfaceProps @ [f]))
      | _ \<Rightarrow> extractInterface_members wrap sourceBody rest interfaceProps)"

definition extractInterface ::
  "(string \<Rightarrow> nat \<Rightarrow> string) \<Rightarrow> string \<Rightarrow> members_node \<Rightarrow> error + meta" where
  "extractInterface wrap sourceBody iNode =
     (case name iNode of
        None \<Rightarrow> Inl TypeError
      | Some n \<Rightarrow>
          (case extractInterface_members wrap sourceBody (members iNode) [] of
             Inl e \<Rightarrow> Inl e
           | Inr interfaceProps \<Rightarrow> Inr (InterfaceMeta (escapedText n) interfaceProps)))"

definition extractConstructor ::
  "(string \<Rightarrow> nat \<Rightarrow> string) \<Rightarrow> string \<Rightarrow> signature_node \<Rightarrow> error + constructor_meta" where
  "extractConstructor wrap sourceBody memberNode =
     (case extractParameters wrap sourceBody (parameters memberNode) [] of
        Inl e \<Rightarrow> Inl e
      | Inr params \<Rightarrow>
          Inr (ConstructorMeta params (fst (extractNodeComments wrap sourceBody memberNode []))))"

text \<open>
  The loop of \<open>extractClass\<close> carries \<open>classMeta.constructorMeta\<close>, which starts as
  \<open>null\<close>, and \<open>classProps\<close>.
\<close>

fun extractClass_members ::
  "(string \<Rightarrow> nat \<Rightarrow> string) \<Rightarrow> string \<Rightarrow> member list \<Rightarrow> constructor_meta option
     \<Rightarrow> field list \<Rightarrow> error + constructor_meta option \<times> field list" where
  "extractClass_members wrap sourceBody [] constructorMeta classProps =
     Inr (constructorMeta, classProps)"
| "extractClass_members wrap sourceBody (m # rest) constructorMeta classProps =
     (case m of
        Constructor c \<Rightarrow>
          (case extractConstructor wrap sourceBody c of
             Inl e \<Rightarrow> Inl e
           | Inr cm \<Rightarrow> extractClass_members wrap sourceBody rest (Some cm) classProps)
      | PropertyDeclaration p \<Rightarrow>
          (case extractNodeMeta wrap sourceBody p of
             Inl e \<Rightarrow> Inl e
           | Inr f \<Rightarrow>
               extractClass_members wrap sourceBody rest constructorMeta (classProps @ [f]))
      | _ \<Rightarrow> extractClass_members wrap sourceBody rest constructorMeta classProps)"

definition extractClass ::
  "(string \<Rightarrow> nat \<Rightarrow> string) \<Rightarrow> string \<Rightarrow> members_node \<Rightarrow> error + meta" where
  "extractClass wrap sourceBody classNode =
     (case name classNode of
        None \<Rightarrow> Inl TypeError
      | Some n \<Rightarrow>
          (case extractClass_members wrap sourceBody (members classNode) None [] of
             Inl e \<Rightarrow> Inl e
           | Inr (constructorMeta, classProps) \<Rightarrow>
               Inr (ClassMeta (escapedText n) constructorMeta classProps)))"

definition extractFunction ::
  "(string \<Rightarrow> nat \<Rightarrow> string) \<Rightarrow> string \<Rightarrow> signature_node \<Rightarrow> error + meta" where
  "extractFunction wrap sourceBody functionNode =
     (case name functionNode of
        None \<Rightarrow> Inl TypeError
      | Some n \<Rightarrow>
          (case extractNodeTypes functionNode of
             Inl e \<Rightarrow> Inl e
           | Inr returnTypes \<Rightarrow>
               (case extractParameters wrap sourceBody (parameters functionNode) [] of
                  Inl e \<Rightarrow> Inl e
                | Inr functionParams \<Rightarrow>
                    Inr (FunctionMeta (escapedText n) functionParams returnTypes))))"

section \<open>The structure walker\<close>

text \<open>
  \<open>extractStructure\<close>. The second argument is optional: \<open>None\<close> is the call with one
  argument, which starts from an empty array, as the recursive call on the body of a
  module declaration does. Reading \<open>kind\<close> of a missing body throws a \<open>TypeError\<close>.
\<close>

fun extractStructure ::
  "(string \<Rightarrow> nat \<Rightarrow> string) \<Rightarrow> string \<Rightarrow> node \<Rightarrow> entry list option \<Rightarrow> error + entry list"
and extractStructure_statements ::
  "(string \<Rightarrow> nat \<Rightarrow> string) \<Rightarrow> string \<Rightarrow> statement list \<Rightarrow> entry list \<Rightarrow> error + entry list"
where
  "extractStructure wrap sourceBody (Node kind stmts) sourceMeta =
     (if kind \<noteq> ''SourceFile'' \<and> kind \<noteq> ''ModuleBlock''
      then Inl (Error ''node kind must be either SourceFile or ModuleBlock.'')
      else extractStructure_statements wrap sourceBody stmts
             (case sourceMeta of None \<Rightarrow> [] | Some given \<Rightarrow> given))"
| "extractStructure_statements wrap sourceBody [] sourceMeta = Inr sourceMeta"
| "extractStructure_statements wrap sourceBody (InterfaceDeclaration i # rest) sourceMeta =
     (case extractInterface wrap sourceBody i of
        Inl e \<Rightarrow> Inl e
      | Inr m \<Rightarrow>
          extractStructure_statements wrap sourceBody rest (sourceMeta @ [(''Interface'', m)]))"
| "extractStructure_statements wrap sourceBody (ClassDeclaration c # rest) sourceMeta =
     (case extractClass wrap sourceBody c of
        Inl e \<Rightarrow> Inl e
      | Inr m \<Rightarrow>
          extractStructure_statements wrap sourceBody rest (sourceMeta @ [(''Class'', m)]))"
| "extractStructure_statements wrap sourceBody (FunctionDeclaration f # rest) sourceMeta =
     (case extractFunction wrap sourceBody f of
        Inl e \<Rightarrow> Inl e
      | Inr m \<Rightarrow>
          extractStructure_statements wrap sourceBody rest (sourceMeta @ [(''Function'', m)]))"
| "extractStructure_statements wrap sourceBody (ModuleDeclaration None # rest) sourceMeta =
     Inl TypeError"
| "extractStructure_statements wrap sourceBody (ModuleDeclaration (Some body) # rest) sourceMeta =
     (case extractStructure wrap sourceBody body None of
        Inl e \<Rightarrow> Inl e
      | Inr inner \<Rightarrow> extractStructure_statements wrap sourceBody rest (sourceMeta @ inner))"
| "extractStructure_statements wrap sourceBody (OtherStatement k # rest) sourceMeta =
     extractStructure_statements wrap sourceBody rest sourceMeta"

text \<open>
  The constructor of \<open>TypeJuice\<close>, given the text of the file and the tree the parser
  made of it: the object holds the text and the extracted structure.
\<close>

record typejuice =
  kSourceBody :: string
  "structure" :: "entry list"

definition TypeJuice ::
  "(string \<Rightarrow> nat \<Rightarrow> string) \<Rightarrow> string \<Rightarrow> node \<Rightarrow> error + typejuice" where
  "TypeJuice wrap text sourceNode =
     (case extractStructure wrap text sourceNode None of
        Inl e \<Rightarrow> Inl e
      | Inr entries \<Rightarrow> Inr \<lparr>kSourceBody = text, structure = entries\<rparr>)"

section \<open>The markdown renderer\<close>

text \<open>
  A value inside a template literal is converted to a string: \<open>undefined\<close> becomes
  the word, and an array becomes its elements joined by commas, an \<open>undefined\<close>
  element giving the empty string.
\<close>

definition template :: "string option \<Rightarrow> string" where
  "template v = (case v of None \<Rightarrow> ''undefined'' | Some s \<Rightarrow> s)"

fun toString :: "jsval \<Rightarrow> string" where
  "toString JUndefined = ''undefined''"
| "toString (JString s) = s"
| "toString (JArray vs) =
     join '','' (map (\<lambda>v. if v = JUndefined then [] else toString v) vs)"

text \<open>\<open>addParamsToMarkdown\<close>: the loop carries the text built so far.\<close>

fun addParamsToMarkdown_loop :: "field list \<Rightarrow> string \<Rightarrow> string" where
  "addParamsToMarkdown_loop [] markdown = markdown"
| "addParamsToMarkdown_loop ((paramName, paramMeta) # rest) markdown =
     addParamsToMarkdown_loop rest
       (let markdown = markdown @ ''- **`'' @ template paramName @ ''`**: '' @
              join '' | '' (map (\<lambda>t. ''**'' @ toString t @ ''**'') (types paramMeta));
            markdown = (if optional paramMeta then markdown @ '' (optional)'' else markdown);
            markdown = (if length (comments paramMeta) \<noteq> 0
                        then markdown @ ''\<newline>  '' @ join '' '' (comments paramMeta)
                        else markdown)
        in markdown @ ''\<newline>'')"

definition addParamsToMarkdown :: "field list \<Rightarrow> string" where
  "addParamsToMarkdown params = addParamsToMarkdown_loop params []"

text \<open>
  \<open>toMarkdown\<close>. The test \<open>meta.constructorMeta.comments\<close> is on an array, which is
  truthy also when it is empty, so its branch is always taken.
\<close>

fun toMarkdown_loop :: "entry list \<Rightarrow> string \<Rightarrow> string" where
  "toMarkdown_loop [] markdown = markdown"
| "toMarkdown_loop ((kind, meta) # rest) markdown =
     toMarkdown_loop rest
       (let markdown = (if length markdown \<noteq> 0 then markdown @ ''\<newline>'' else markdown);
            markdown = markdown @ ''## '' @ kind @ '': '' @ template (meta_name meta) @ ''\<newline>'';
            markdown =
              (case meta_constructorMeta meta of
                 None \<Rightarrow> markdown
               | Some constructorMeta \<Rightarrow>
                   (let markdown = markdown @ ''\<newline>'';
                        markdown = markdown @
                          join ''\<newline>\<newline>'' (cm_comments constructorMeta) @ ''\<newline>'';
                        markdown = markdown @ ''\<newline>''
                    in markdown @ addParamsToMarkdown (cm_params constructorMeta)));
            markdown =
              (case meta_params meta of
                 None \<Rightarrow> markdown
               | Some params \<Rightarrow>
                   (let markdown = markdown @ ''\<newline>'';
                        markdown = markdown @ ''### Parameters\<newline>''
                    in if length params \<noteq> 0
                       then markdown @ ''\<newline>'' @ addParamsToMarkdown params
                       else markdown));
            markdown =
              (case meta_props meta of
                 None \<Rightarrow> markdown
               | Some props \<Rightarrow>
                   if length props \<noteq> 0
                   then markdown @ ''\<newline>'' @ ''### Properties\<newline>'' @ ''\<newline>'' @
                        addParamsToMarkdown props
                   else markdown)
        in markdown)"

definition toMarkdown :: "typejuice \<Rightarrow> string" where
  "toMarkdown this = toMarkdown_loop (structure this) []"

section \<open>Notions used to state the properties\<close>

text \<open>The identifiers of an entity name, left to right, and its leftmost identifier.\<close>

fun segments :: "entity_name \<Rightarrow> string list" where
  "segments (Identifier s) = [s]"
| "segments (QualifiedName l r) = segments l @ [r]"

fun leftmost :: "entity_name \<Rightarrow> string" where
  "leftmost (Identifier s) = s"
| "leftmost (QualifiedName l r) = leftmost l"

text \<open>
  The recognized declarations of a node from top to bottom, the declarations inside
  the body of a module declaration taking the place of that declaration; a statement
  of any other kind contributes nothing.
\<close>

fun declarations :: "node \<Rightarrow> statement list"
and declarations_statements :: "statement list \<Rightarrow> statement list" where
  "declarations (Node kind stmts) = declarations_statements stmts"
| "declarations_statements [] = []"
| "declarations_statements (InterfaceDeclaration i # rest) =
     InterfaceDeclaration i # declarations_statements rest"
| "declarations_statements (ClassDeclaration c # rest) =
     ClassDeclaration c # declarations_statements rest"
| "declarations_statements (FunctionDeclaration f # rest) =
     FunctionDeclaration f # declarations_statements rest"
| "declarations_statements (ModuleDeclaration None # rest) = declarations_statements rest"
| "declarations_statements (ModuleDeclaration (Some body) # rest) =
     declarations body @ declarations_statements rest"
| "declarations_statements (OtherStatement k # rest) = declarations_statements rest"

text \<open>
  The entry of one recognized declaration: its kind tag and its metadata. Statements
  of the other two kinds are not among the recognized declarations of a node.
\<close>

fun declarationEntry ::
  "(string \<Rightarrow> nat \<Rightarrow> string) \<Rightarrow> string \<Rightarrow> statement \<Rightarrow> error + entry" where
  "declarationEntry wrap sourceBody (InterfaceDeclaration i) =
     map_sum id (Pair ''Interface'') (extractInterface wrap sourceBody i)"
| "declarationEntry wrap sourceBody (ClassDeclaration c) =
     map_sum id (Pair ''Class'') (extractClass wrap sourceBody c)"
| "declarationEntry wrap sourceBody (FunctionDeclaration f) =
     map_sum id (Pair ''Function'') (extractFunction wrap sourceBody f)"
| "declarationEntry wrap sourceBody (ModuleDeclaration body) = Inl TypeError"
| "declarationEntry wrap sourceBody (OtherStatement k) = Inl TypeError"

text \<open>
  A node is a container all the way down: its kind is \<open>SourceFile\<close> or \<open>ModuleBlock\<close>,
  and so is the kind of the body of every module declaration in it, which is present.
\<close>

fun containers :: "node \<Rightarrow> bool"
and containers_statements :: "statement list \<Rightarrow> bool" where
  "containers (Node kind stmts) \<longleftrightarrow>
     (kind = ''SourceFile'' \<or> kind = ''ModuleBlock'') \<and> containers_statements stmts"
| "containers_statements [] \<longleftrightarrow> True"
| "containers_statements (ModuleDeclaration None # rest) \<longleftrightarrow> False"
| "containers_statements (ModuleDeclaration (Some body) # rest) \<longleftrightarrow>
     containers body \<and> containers_statements rest"
| "containers_statements (InterfaceDeclaration i # rest) \<longleftrightarrow> containers_statements rest"
| "containers_statements (ClassDeclaration c # rest) \<longleftrightarrow> containers_statements rest"
| "containers_statements (FunctionDeclaration f # rest) \<longleftrightarrow> containers_statements rest"
| "containers_statements (OtherStatement k # rest) \<longleftrightarrow> containers_statements rest"



text \<open>The constructor members of a class, in member order.\<close>

fun constructors :: "member list \<Rightarrow> signature_node list" where
  "constructors [] = []"
| "constructors (Constructor c # rest) = c # constructors rest"
| "constructors (PropertySignature p # rest) = constructors rest"
| "constructors (PropertyDeclaration p # rest) = constructors rest"
| "constructors (OtherMember k # rest) = constructors rest"

text \<open>A class member whose own extraction throws nothing.\<close>

fun memberExtracts :: "(string \<Rightarrow> nat \<Rightarrow> string) \<Rightarrow> string \<Rightarrow> member \<Rightarrow> bool" where
  "memberExtracts wrap sourceBody (Constructor c) \<longleftrightarrow>
     \<not> isl (extractConstructor wrap sourceBody c)"
| "memberExtracts wrap sourceBody (PropertyDeclaration p) \<longleftrightarrow>
     \<not> isl (extractNodeMeta wrap sourceBody p)"
| "memberExtracts wrap sourceBody (PropertySignature p) = True"
| "memberExtracts wrap sourceBody (OtherMember k) = True"

section \<open>Evaluation\<close>

text \<open>The definitions that evaluate an extraction on a concrete tree.\<close>

lemmas eval_defs = extractNodeMeta_def extractNodeTypes_def extractNodeComments_def slice_def
  commentMatch_def blankMatch_def isWhiteSpace_def isLineTerminator_def keywordLookup_def
  keywordMap_def trim_def

section \<open>Type names are dotted paths\<close>

lemma join_snoc: "xs \<noteq> [] \<Longrightarrow> join sep (xs @ [r]) = join sep xs @ sep @ r"
  by (induction sep xs rule: join.induct) auto

lemma segments_nonempty: "segments t \<noteq> []"
  by (cases t) auto

lemma extractTypeName_segments:
  assumes "leftmost t \<noteq> []"
  shows "extractTypeName t = join ''.'' (segments t)"
  using assms
proof (induction t rule: extractTypeName.induct)
  case (1 escapedText)
  then show ?case by simp
next
  case (2 ll lr r)
  have "join ''.'' ((segments ll @ [lr]) @ [r]) = join ''.'' (segments ll) @ ''.'' @ lr @ ''.'' @ r"
  proof -
    have "segments ll @ [lr] \<noteq> []" by simp
    then have "join ''.'' ((segments ll @ [lr]) @ [r]) = join ''.'' (segments ll @ [lr]) @ ''.'' @ r"
      by (rule join_snoc)
    also have "join ''.'' (segments ll @ [lr]) = join ''.'' (segments ll) @ ''.'' @ lr"
      by (rule join_snoc [OF segments_nonempty])
    finally show ?thesis by simp
  qed
  with 2 show ?case by simp
next
  case (3 l r)
  then show ?case by simp
qed

text \<open>
  Claim C2. A simple identifier resolves to its text. A qualified name of any depth
  resolves to its identifiers in source order, left to right, with a dot between
  neighbours, provided the leftmost identifier has a text, as every identifier read
  from source text has: \<open>A.B.C\<close> resolves to \<open>A.B.C\<close>.
\<close>

theorem extractTypeName_dotted:
  assumes "leftmost t \<noteq> []"
  shows "extractTypeName t = join ''.'' (segments t) \<and> extractTypeName (Identifier s) = s"
  using extractTypeName_segments [OF assms] by simp

theorem extractTypeName_dotted_witness:
  "extractTypeName (QualifiedName (QualifiedName (Identifier ''A'') ''B'') ''C'') = ''A.B.C'' \<and>
   extractTypeName (QualifiedName (Identifier ''Vue'') ''Component'') = ''Vue.Component'' \<and>
   extractTypeName (Identifier ''Foo'') = ''Foo''"
  using extractTypeName_dotted [of "QualifiedName (QualifiedName (Identifier ''A'') ''B'') ''C''" "''Foo''"]
    extractTypeName_dotted [of "QualifiedName (Identifier ''Vue'') ''Component''" "''Foo''"]
  by simp

section \<open>The types of a member\<close>

lemma length_extractNodeTypes_union:
  "length (extractNodeTypes_union ts acc) = length acc + length ts"
  by (induction ts arbitrary: acc) (auto split: option.splits)

lemma extractNodeTypes_union_append:
  "extractNodeTypes_union ts acc = acc @ extractNodeTypes_union ts []"
proof (induction ts arbitrary: acc)
  case Nil
  show ?case by simp
next
  case (Cons t ts)
  show ?case
    by (simp split: option.splits) (metis Cons.IH append_assoc)+
qed

lemma extractNodeTypes_union_nth:
  assumes "i < length ts"
  shows "extractNodeTypes_union ts [] ! i = hd (extractNodeTypes_union [ts ! i] [])"
  using assms
proof (induction ts arbitrary: i)
  case Nil
  then show ?case by simp
next
  case (Cons t ts)
  show ?case
  proof (cases i)
    case 0
    have "extractNodeTypes_union (t # ts) [] = extractNodeTypes_union [t] [] @ extractNodeTypes_union ts []"
      using extractNodeTypes_union_append [of ts "extractNodeTypes_union [t] []"]
      by (simp split: option.splits)
    moreover have "length (extractNodeTypes_union [t] []) = 1"
      by (simp only: length_extractNodeTypes_union) simp
    ultimately show ?thesis using 0
      by (metis One_nat_def hd_conv_nth length_0_conv nth_append zero_less_one zero_neq_one nth_Cons_0)
  next
    case (Suc j)
    have e: "extractNodeTypes_union (t # ts) [] = extractNodeTypes_union [t] [] @ extractNodeTypes_union ts []"
      using extractNodeTypes_union_append [of ts "extractNodeTypes_union [t] []"]
      by (simp split: option.splits)
    have l: "length (extractNodeTypes_union [t] []) = 1"
      by (simp only: length_extractNodeTypes_union) simp
    from Suc Cons.prems have "j < length ts" by simp
    then have "extractNodeTypes_union ts [] ! j = hd (extractNodeTypes_union [ts ! j] [])"
      by (rule Cons.IH)
    then show ?thesis using Suc e l by (simp add: nth_append)
  qed
qed

text \<open>
  Claim C9. The metadata that member extraction produces for a property or parameter has
  a non-empty \<open>types\<close> sequence, for a node whose type annotation is not a union with
  no members at all (the parser builds a union from at least one member).
\<close>

theorem extractNodeMeta_types_nonempty:
  assumes "type node = Some t" and "type_types t \<noteq> Some []"
    and "extractNodeMeta wrap sourceBody node = Inr (n, fm)"
  shows "types fm \<noteq> []"
proof -
  from assms(3) assms(1) obtain vs where vs: "extractNodeTypes node = Inr vs" and fm: "types fm = vs"
    by (auto simp: extractNodeMeta_def split: option.splits sum.splits)
  show ?thesis
  proof (cases "type_types t")
    case None
    with vs assms(1) have "length vs = 1"
      by (auto simp: extractNodeTypes_def split: option.splits)
    with fm show ?thesis by auto
  next
    case (Some ts)
    with assms(2) have "ts \<noteq> []" by simp
    moreover from Some vs assms(1) have "vs = extractNodeTypes_union ts []"
      by (simp add: extractNodeTypes_def)
    ultimately have "length vs \<noteq> 0" by (simp add: length_extractNodeTypes_union)
    with fm show ?thesis by auto
  qed
qed

theorem extractNodeMeta_types_nonempty_witness:
  "extractNodeMeta (\<lambda>s w. s) ''x: number | string''
      \<lparr>pos = 0, endpos = 18, name = Some (Name (Some ''x'')),
       type = Some (TypeNode ''UnionType''
         (Some [TypeNode ''NumberKeyword'' None None None,
                TypeNode ''StringKeyword'' None None None]) None None),
       questionToken = False\<rparr> =
     Inr (Some ''x'', \<lparr>optional = False, types = [JString ''number'', JString ''string''],
            comments = []\<rparr>) \<and>
   types \<lparr>optional = False, types = [JString ''number'', JString ''string''],
     comments = []\<rparr> \<noteq> []"
proof -
  have e: "extractNodeMeta (\<lambda>s w. s) ''x: number | string''
      \<lparr>pos = 0, endpos = 18, name = Some (Name (Some ''x'')),
       type = Some (TypeNode ''UnionType''
         (Some [TypeNode ''NumberKeyword'' None None None,
                TypeNode ''StringKeyword'' None None None]) None None),
       questionToken = False\<rparr> =
     Inr (Some ''x'', \<lparr>optional = False, types = [JString ''number'', JString ''string''],
            comments = []\<rparr>)"
    by (simp add: eval_defs)
  from extractNodeMeta_types_nonempty [OF _ _ e,
      of "TypeNode ''UnionType''
         (Some [TypeNode ''NumberKeyword'' None None None,
                TypeNode ''StringKeyword'' None None None]) None None"]
  have "[JString ''number'', JString ''string''] \<noteq> []" by simp
  with e show ?thesis by simp
qed

text \<open>
  Claim C1. The claim is that every alternative of a union is wrapped as a one-element
  sequence, as the single type is. The code does not do so: for a property typed
  \<open>string | number\<close> the \<open>types\<close> are the two names themselves, \<open>["string", "number"]\<close>,
  while for a property typed \<open>string\<close> they are \<open>[["string"]]\<close>. The branch for a single
  type wraps the name; the loop over the members of a union does not.
\<close>

theorem extractNodeTypes_union_not_nested:
  "extractNodeTypes
      \<lparr>pos = 0, endpos = 18, name = Some (Name (Some ''x'')),
       type = Some (TypeNode ''UnionType''
         (Some [TypeNode ''StringKeyword'' None None None,
                TypeNode ''NumberKeyword'' None None None]) None None),
       questionToken = False\<rparr> =
     Inr [JString ''string'', JString ''number''] \<and>
   extractNodeTypes
      \<lparr>pos = 0, endpos = 9, name = Some (Name (Some ''x'')),
       type = Some (TypeNode ''StringKeyword'' None None None), questionToken = False\<rparr> =
     Inr [JArray [JString ''string'']]"
  by (simp add: extractNodeTypes_def keywordLookup_def keywordMap_def)

text \<open>
  Claim C8. A type node that is no type reference and whose keyword kind (the kind of
  its literal, if it has one) is not a key of the lookup table resolves to
  \<open>undefined\<close>: as the whole annotation it gives \<open>types = [[undefined]]\<close>, as the
  \<open>i\<close>-th member of a union it gives \<open>undefined\<close> at index \<open>i\<close>. In both cases
  extraction of the member returns its metadata and throws nothing.
\<close>

theorem unknown_keyword_undefined:
  fixes node :: member_node
  assumes "name node = Some n" and "type node = Some t"
    and "type_typeName u = None"
    and "(case type_literal u of Some k \<Rightarrow> k | None \<Rightarrow> type_kind u) \<notin> fst ` set keywordMap"
  shows "(type_types t = None \<and> u = t \<longrightarrow>
           (\<exists>fm. extractNodeMeta wrap sourceBody node = Inr (escapedText n, fm) \<and>
                 types fm = [JArray [JUndefined]])) \<and>
         (\<forall>ts i. type_types t = Some ts \<and> i < length ts \<and> ts ! i = u \<longrightarrow>
           (\<exists>fm. extractNodeMeta wrap sourceBody node = Inr (escapedText n, fm) \<and>
                 length (types fm) = length ts \<and> types fm ! i = JUndefined))"
proof -
  have look: "keywordLookup (case type_literal u of Some k \<Rightarrow> k | None \<Rightarrow> type_kind u) = JUndefined"
  proof -
    from assms(4)
    have "map_of keywordMap (case type_literal u of Some k \<Rightarrow> k | None \<Rightarrow> type_kind u) = None"
      by (simp only: map_of_eq_None_iff not_False_eq_True)
    then show ?thesis by (simp add: keywordLookup_def)
  qed
  have one: "extractNodeTypes_union [u] [] = [JUndefined]"
    using look assms(3) by (simp split: option.splits)
  have single: "type_types t = None \<Longrightarrow> u = t \<Longrightarrow> extractNodeTypes node = Inr [JArray [JUndefined]]"
    using look assms(2,3) by (simp add: extractNodeTypes_def split: option.splits)
  have union: "type_types t = Some ts \<Longrightarrow> i < length ts \<Longrightarrow> ts ! i = u \<Longrightarrow>
      extractNodeTypes node = Inr (extractNodeTypes_union ts []) \<and>
      length (extractNodeTypes_union ts []) = length ts \<and> extractNodeTypes_union ts [] ! i = JUndefined" for ts i
    using assms(2) one
    by (simp add: extractNodeTypes_def length_extractNodeTypes_union extractNodeTypes_union_nth)
  show ?thesis
    using single union assms(1) by (auto simp: extractNodeMeta_def)
qed

theorem unknown_keyword_undefined_witness:
  "(\<exists>fm. extractNodeMeta (\<lambda>s w. s) ''x: any''
      \<lparr>pos = 0, endpos = 6, name = Some (Name (Some ''x'')),
       type = Some (TypeNode ''AnyKeyword'' None None None), questionToken = False\<rparr> =
      Inr (Some ''x'', fm) \<and> types fm = [JArray [JUndefined]])"
  using unknown_keyword_undefined
    [of "\<lparr>pos = 0, endpos = 6, name = Some (Name (Some ''x'')),
         type = Some (TypeNode ''AnyKeyword'' None None None), questionToken = False\<rparr>"
      "Name (Some ''x'')" "TypeNode ''AnyKeyword'' None None None"
      "TypeNode ''AnyKeyword'' None None None" "\<lambda>s w. s" "''x: any''"]
  by (simp add: keywordMap_def)

section \<open>The order of the extracted structure\<close>

lemma extractStructure_iff:
  "(extractStructure wrap src n sm = Inr es \<longleftrightarrow>
      containers n \<and> (\<exists>es'. es = (case sm of None \<Rightarrow> [] | Some given \<Rightarrow> given) @ es' \<and>
         map (declarationEntry wrap src) (declarations n) = map Inr es'))"
  "(extractStructure_statements wrap src ss acc = Inr es \<longleftrightarrow>
      containers_statements ss \<and> (\<exists>es'. es = acc @ es' \<and>
         map (declarationEntry wrap src) (declarations_statements ss) = map Inr es'))"
proof (induction wrap src n sm and wrap src ss acc arbitrary: es and es
    rule: extractStructure_extractStructure_statements.induct)
  case (1 wrap sourceBody kind stmts sourceMeta)
  then show ?case by auto
next
  case (2 wrap sourceBody sourceMeta)
  then show ?case by auto
next
  case (3 wrap sourceBody i rest sourceMeta)
  show ?case
  proof (cases "extractInterface wrap sourceBody i")
    case (Inl e)
    then show ?thesis by auto
  next
    case (Inr m)
    show ?thesis
      using 3 [OF Inr] Inr by (auto simp: Cons_eq_map_conv)
  qed
next
  case (4 wrap sourceBody c rest sourceMeta)
  show ?case
  proof (cases "extractClass wrap sourceBody c")
    case (Inl e)
    then show ?thesis by auto
  next
    case (Inr m)
    show ?thesis
      using 4 [OF Inr] Inr by (auto simp: Cons_eq_map_conv)
  qed
next
  case (5 wrap sourceBody f rest sourceMeta)
  show ?case
  proof (cases "extractFunction wrap sourceBody f")
    case (Inl e)
    then show ?thesis by auto
  next
    case (Inr m)
    show ?thesis
      using 5 [OF Inr] Inr by (auto simp: Cons_eq_map_conv)
  qed
next
  case (6 wrap sourceBody rest sourceMeta)
  then show ?case by simp
next
  case (7 wrap sourceBody body rest sourceMeta)
  have body_iff: "extractStructure wrap sourceBody body None = Inr xs \<longleftrightarrow>
      containers body \<and> map (declarationEntry wrap sourceBody) (declarations body) = map Inr xs" for xs
    using 7(1) [of xs] by simp
  show ?case
  proof (cases "extractStructure wrap sourceBody body None")
    case (Inl e)
    have "\<not> (containers body \<and>
        map (declarationEntry wrap sourceBody) (declarations body) @
        map (declarationEntry wrap sourceBody) (declarations_statements rest) = map Inr es')" for es'
    proof
      assume a: "containers body \<and>
        map (declarationEntry wrap sourceBody) (declarations body) @
        map (declarationEntry wrap sourceBody) (declarations_statements rest) = map Inr es'"
      then have "map Inr es' = map (declarationEntry wrap sourceBody) (declarations body) @
        map (declarationEntry wrap sourceBody) (declarations_statements rest)" by simp
      then obtain es1 where "map (declarationEntry wrap sourceBody) (declarations body) = map Inr es1"
        unfolding map_eq_append_conv by auto
      with a have "extractStructure wrap sourceBody body None = Inr es1"
        by (simp add: body_iff)
      with Inl show False by simp
    qed
    with Inl show ?thesis by auto
  next
    case (Inr inner)
    then have b: "containers body"
      and bi: "map (declarationEntry wrap sourceBody) (declarations body) = map Inr inner"
      by (simp_all add: body_iff)
    have rest_iff: "extractStructure_statements wrap sourceBody rest (sourceMeta @ inner) = Inr es \<longleftrightarrow>
      containers_statements rest \<and> (\<exists>es'. es = (sourceMeta @ inner) @ es' \<and>
         map (declarationEntry wrap sourceBody) (declarations_statements rest) = map Inr es')"
      by (rule 7(2) [OF Inr])
    have "(\<exists>es'. es = (sourceMeta @ inner) @ es' \<and>
         map (declarationEntry wrap sourceBody) (declarations_statements rest) = map Inr es') \<longleftrightarrow>
       (\<exists>es'. es = sourceMeta @ es' \<and>
         map Inr inner @ map (declarationEntry wrap sourceBody) (declarations_statements rest) =
         map Inr es')" (is "?L \<longleftrightarrow> ?R")
    proof
      assume ?L
      then obtain es' where "es = sourceMeta @ inner @ es'"
        and "map (declarationEntry wrap sourceBody) (declarations_statements rest) = map Inr es'"
        by auto
      then have "es = sourceMeta @ (inner @ es') \<and>
         map Inr inner @ map (declarationEntry wrap sourceBody) (declarations_statements rest) =
         map Inr (inner @ es')" by simp
      then show ?R by blast
    next
      assume ?R
      then obtain es' where e: "es = sourceMeta @ es'"
        and m: "map Inr es' =
          map Inr inner @ map (declarationEntry wrap sourceBody) (declarations_statements rest)"
        by auto
      from m obtain es1 es2 where s: "es' = es1 @ es2" and m1: "map Inr inner = map Inr es1"
        and m2: "map (declarationEntry wrap sourceBody) (declarations_statements rest) = map Inr es2"
        unfolding map_eq_append_conv by auto
      from m1 have "inner = es1" by simp
      with e s m2 show ?L by auto
    qed
    with rest_iff Inr b bi show ?thesis by simp
  qed
next
  case (8 wrap sourceBody k rest sourceMeta)
  then show ?case by simp
qed

text \<open>
  Claim C5. The structure walker returns a sequence exactly when the node is a
  container all the way down and every recognized declaration in it extracts, and
  the sequence then is the entries of the recognized interface, class and function
  declarations in source order from top to bottom, those inside the body of a
  module declaration in the place of that declaration, which leaves no entry of its
  own; statements of other kinds leave none either.
\<close>

theorem extractStructure_source_order:
  "extractStructure wrap sourceBody n None = Inr es \<longleftrightarrow>
     containers n \<and>
     map (declarationEntry wrap sourceBody) (declarations n) = map Inr es"
  using extractStructure_iff(1) [of wrap sourceBody n None es] by simp

theorem extractStructure_source_order_witness:
  "extractStructure (\<lambda>s w. s)
     ''interface A {}\<newline>const x = 1\<newline>namespace N {\<newline>  class B {}\<newline>}\<newline>declare function f(): string\<newline>''
     (Node ''SourceFile''
     [InterfaceDeclaration \<lparr>pos = 0, endpos = 14, name = Some (Name (Some ''A'')), type = None, members = []\<rparr>,
      OtherStatement ''VariableStatement'',
      ModuleDeclaration (Some (Node ''ModuleBlock''
        [ClassDeclaration \<lparr>pos = 40, endpos = 53, name = Some (Name (Some ''B'')), type = None, members = []\<rparr>])),
      FunctionDeclaration \<lparr>pos = 55, endpos = 84, name = Some (Name (Some ''f'')), type = Some (TypeNode ''StringKeyword'' None None None), parameters = []\<rparr>]) None =
   Inr [(''Interface'', InterfaceMeta (Some ''A'') []),
      (''Class'', ClassMeta (Some ''B'') None []),
      (''Function'', FunctionMeta (Some ''f'') [] [JArray [JString ''string'']])]"
  using extractStructure_source_order
    [of "(\<lambda>s w. s)"
      "''interface A {}\<newline>const x = 1\<newline>namespace N {\<newline>  class B {}\<newline>}\<newline>declare function f(): string\<newline>''"
      "Node ''SourceFile''
     [InterfaceDeclaration \<lparr>pos = 0, endpos = 14, name = Some (Name (Some ''A'')), type = None, members = []\<rparr>,
      OtherStatement ''VariableStatement'',
      ModuleDeclaration (Some (Node ''ModuleBlock''
        [ClassDeclaration \<lparr>pos = 40, endpos = 53, name = Some (Name (Some ''B'')), type = None, members = []\<rparr>])),
      FunctionDeclaration \<lparr>pos = 55, endpos = 84, name = Some (Name (Some ''f'')), type = Some (TypeNode ''StringKeyword'' None None None), parameters = []\<rparr>]"
      "[(''Interface'', InterfaceMeta (Some ''A'') []),
      (''Class'', ClassMeta (Some ''B'') None []),
      (''Function'', FunctionMeta (Some ''f'') [] [JArray [JString ''string'']])]"]
  by (simp add: eval_defs extractInterface_def extractClass_def extractFunction_def)

section \<open>Errors of the structure walker\<close>

lemma extractNodeTypes_error: "extractNodeTypes node = Inl e \<Longrightarrow> e = TypeError"
  by (auto simp: extractNodeTypes_def split: option.splits)

lemma extractNodeMeta_error: "extractNodeMeta wrap src node = Inl e \<Longrightarrow> e = TypeError"
  by (auto simp: extractNodeMeta_def split: option.splits sum.splits dest: extractNodeTypes_error)

lemma extractParameters_error:
  "extractParameters wrap src ps acc = Inl e \<Longrightarrow> e = TypeError"
  by (induction ps arbitrary: acc) (auto split: sum.splits dest: extractNodeMeta_error)

lemma extractInterface_members_error:
  "extractInterface_members wrap src ms acc = Inl e \<Longrightarrow> e = TypeError"
  by (induction ms arbitrary: acc) (auto split: sum.splits member.splits dest: extractNodeMeta_error)

lemma extractInterface_error: "extractInterface wrap src i = Inl e \<Longrightarrow> e = TypeError"
  by (auto simp: extractInterface_def split: option.splits sum.splits
      dest: extractInterface_members_error)

lemma extractConstructor_error: "extractConstructor wrap src c = Inl e \<Longrightarrow> e = TypeError"
  by (auto simp: extractConstructor_def split: sum.splits dest: extractParameters_error)

lemma extractClass_members_error:
  "extractClass_members wrap src ms cm acc = Inl e \<Longrightarrow> e = TypeError"
  by (induction ms arbitrary: cm acc)
    (auto split: sum.splits member.splits dest: extractNodeMeta_error extractConstructor_error)

lemma extractClass_error: "extractClass wrap src c = Inl e \<Longrightarrow> e = TypeError"
  by (auto simp: extractClass_def split: option.splits sum.splits prod.splits
      dest: extractClass_members_error)

lemma extractFunction_error: "extractFunction wrap src f = Inl e \<Longrightarrow> e = TypeError"
  by (auto simp: extractFunction_def split: option.splits sum.splits
      dest: extractNodeTypes_error extractParameters_error)

lemma extractStructure_Error:
  "extractStructure wrap src n sm = Inl (Error msg) \<Longrightarrow> \<not> containers n"
  "extractStructure_statements wrap src ss acc = Inl (Error msg) \<Longrightarrow> \<not> containers_statements ss"
proof (induction wrap src n sm and wrap src ss acc
    rule: extractStructure_extractStructure_statements.induct)
  case (1 wrap sourceBody kind stmts sourceMeta)
  then show ?case by (auto split: if_splits)
next
  case (2 wrap sourceBody sourceMeta)
  then show ?case by simp
next
  case (3 wrap sourceBody i rest sourceMeta)
  then show ?case by (auto split: sum.splits dest: extractInterface_error)
next
  case (4 wrap sourceBody c rest sourceMeta)
  then show ?case by (auto split: sum.splits dest: extractClass_error)
next
  case (5 wrap sourceBody f rest sourceMeta)
  then show ?case by (auto split: sum.splits dest: extractFunction_error)
next
  case (6 wrap sourceBody rest sourceMeta)
  then show ?case by simp
next
  case (7 wrap sourceBody body rest sourceMeta)
  then show ?case by (auto split: sum.splits)
next
  case (8 wrap sourceBody k rest sourceMeta)
  then show ?case by simp
qed

lemma extractStructure_statements_append:
  "extractStructure_statements wrap src (pre @ ss) acc =
     (case extractStructure_statements wrap src pre acc of
        Inl e \<Rightarrow> Inl e
      | Inr acc' \<Rightarrow> extractStructure_statements wrap src ss acc')"
proof (induction pre arbitrary: acc)
  case Nil
  show ?case by simp
next
  case (Cons s pre)
  show ?case
  proof (cases s)
    case (ModuleDeclaration body)
    then show ?thesis using Cons by (cases body) (auto split: sum.splits)
  qed (use Cons in \<open>auto split: sum.splits\<close>)
qed

lemma extractStructure_statements_Error_origin:
  "extractStructure_statements wrap src ss acc = Inl (Error msg) \<Longrightarrow>
     \<exists>pre body rest. ss = pre @ ModuleDeclaration (Some body) # rest \<and>
       extractStructure wrap src body None = Inl (Error msg)"
proof (induction ss arbitrary: acc)
  case Nil
  then show ?case by simp
next
  case (Cons s ss)
  have step: "\<exists>pre body rest. s # ss = pre @ ModuleDeclaration (Some body) # rest \<and>
       extractStructure wrap src body None = Inl (Error msg)"
    if "extractStructure_statements wrap src ss acc' = Inl (Error msg)" for acc'
  proof -
    from Cons.IH [OF that] obtain pre body rest
      where "ss = pre @ ModuleDeclaration (Some body) # rest"
        and "extractStructure wrap src body None = Inl (Error msg)" by blast
    then have "s # ss = (s # pre) @ ModuleDeclaration (Some body) # rest \<and>
        extractStructure wrap src body None = Inl (Error msg)" by simp
    then show ?thesis by blast
  qed
  show ?case
  proof (cases s)
    case (InterfaceDeclaration i)
    with Cons.prems have "\<exists>acc'. extractStructure_statements wrap src ss acc' = Inl (Error msg)"
      by (auto split: sum.splits dest: extractInterface_error)
    then show ?thesis using step by blast
  next
    case (ClassDeclaration c)
    with Cons.prems have "\<exists>acc'. extractStructure_statements wrap src ss acc' = Inl (Error msg)"
      by (auto split: sum.splits dest: extractClass_error)
    then show ?thesis using step by blast
  next
    case (FunctionDeclaration f)
    with Cons.prems have "\<exists>acc'. extractStructure_statements wrap src ss acc' = Inl (Error msg)"
      by (auto split: sum.splits dest: extractFunction_error)
    then show ?thesis using step by blast
  next
    case (ModuleDeclaration b)
    show ?thesis
    proof (cases b)
      case None
      with ModuleDeclaration Cons.prems show ?thesis by simp
    next
      case (Some body)
      show ?thesis
      proof (cases "extractStructure wrap src body None")
        case (Inl e)
        with Some ModuleDeclaration Cons.prems
        have "s # ss = [] @ ModuleDeclaration (Some body) # ss \<and>
            extractStructure wrap src body None = Inl (Error msg)" by simp
        then show ?thesis by blast
      next
        case (Inr inner)
        with Some ModuleDeclaration Cons.prems
        have "extractStructure_statements wrap src ss (acc @ inner) = Inl (Error msg)" by simp
        then show ?thesis by (rule step)
      qed
    qed
  next
    case (OtherStatement k)
    with Cons.prems have "extractStructure_statements wrap src ss acc = Inl (Error msg)" by simp
    then show ?thesis by (rule step)
  qed
qed

text \<open>
  Claim C7. Called on a node whose kind is neither \<open>SourceFile\<close> nor \<open>ModuleBlock\<close>,
  the structure walker throws its error. Called on a node of one of these kinds it
  does not: if its walk ends with that error, the error was thrown by the walk of the
  body of a module declaration among its statements, so there is none when the node
  is a container all the way down. The error is not caught: when the statements
  before a module declaration extract and the walk of its body throws, the walk of
  the whole node throws the same error.
\<close>

theorem extractStructure_container_guard:
  "(kind \<noteq> ''SourceFile'' \<and> kind \<noteq> ''ModuleBlock'' \<longrightarrow>
      extractStructure wrap sourceBody (Node kind stmts) sourceMeta =
        Inl (Error ''node kind must be either SourceFile or ModuleBlock.'')) \<and>
   ((kind = ''SourceFile'' \<or> kind = ''ModuleBlock'') \<and>
    extractStructure wrap sourceBody (Node kind stmts) sourceMeta = Inl (Error msg) \<longrightarrow>
      (\<exists>before body after. stmts = before @ ModuleDeclaration (Some body) # after \<and>
         extractStructure wrap sourceBody body None = Inl (Error msg))) \<and>
   (containers n \<longrightarrow> extractStructure wrap sourceBody n sourceMeta \<noteq> Inl (Error msg)) \<and>
   (extractStructure wrap sourceBody (Node kind pre) sourceMeta = Inr entries \<and>
    extractStructure wrap sourceBody body None = Inl e \<longrightarrow>
      extractStructure wrap sourceBody (Node kind (pre @ ModuleDeclaration (Some body) # rest))
        sourceMeta = Inl e)"
proof (intro conjI impI)
  assume "kind \<noteq> ''SourceFile'' \<and> kind \<noteq> ''ModuleBlock''"
  then show "extractStructure wrap sourceBody (Node kind stmts) sourceMeta =
        Inl (Error ''node kind must be either SourceFile or ModuleBlock.'')"
    by simp
next
  assume "(kind = ''SourceFile'' \<or> kind = ''ModuleBlock'') \<and>
    extractStructure wrap sourceBody (Node kind stmts) sourceMeta = Inl (Error msg)"
  then have "\<exists>acc. extractStructure_statements wrap sourceBody stmts acc = Inl (Error msg)"
    by (auto split: if_splits)
  then show "\<exists>before body after. stmts = before @ ModuleDeclaration (Some body) # after \<and>
         extractStructure wrap sourceBody body None = Inl (Error msg)"
    using extractStructure_statements_Error_origin by blast
next
  assume "containers n"
  then show "extractStructure wrap sourceBody n sourceMeta \<noteq> Inl (Error msg)"
    using extractStructure_Error(1) by blast
next
  assume a: "extractStructure wrap sourceBody (Node kind pre) sourceMeta = Inr entries \<and>
    extractStructure wrap sourceBody body None = Inl e"
  then show "extractStructure wrap sourceBody (Node kind (pre @ ModuleDeclaration (Some body) # rest))
        sourceMeta = Inl e"
    by (auto simp: extractStructure_statements_append split: if_splits)
qed

theorem extractStructure_container_guard_witness:
  "extractStructure (\<lambda>s w. s) ''namespace A.B {}''
     (Node ''ModuleDeclaration'' []) None =
     Inl (Error ''node kind must be either SourceFile or ModuleBlock.'') \<and>
   extractStructure (\<lambda>s w. s) ''namespace A {}''
     (Node ''SourceFile'' [ModuleDeclaration (Some (Node ''ModuleBlock'' []))]) None \<noteq>
     Inl (Error ''node kind must be either SourceFile or ModuleBlock.'') \<and>
   extractStructure (\<lambda>s w. s) ''namespace A.B {}''
     (Node ''SourceFile'' [ModuleDeclaration (Some (Node ''ModuleDeclaration'' []))]) None =
     Inl (Error ''node kind must be either SourceFile or ModuleBlock.'')"
  using extractStructure_container_guard
      [where kind = "''ModuleDeclaration''" and wrap = "\<lambda>s w. s"
        and sourceBody = "''namespace A.B {}''" and stmts = "[]" and sourceMeta = None
        and n = "Node ''SourceFile'' []"]
    extractStructure_container_guard
      [where kind = "''SourceFile''" and wrap = "\<lambda>s w. s"
        and sourceBody = "''namespace A {}''" and stmts = "[]" and sourceMeta = None
        and n = "Node ''SourceFile'' [ModuleDeclaration (Some (Node ''ModuleBlock'' []))]"
        and msg = "''node kind must be either SourceFile or ModuleBlock.''"]
    extractStructure_container_guard
      [where kind = "''SourceFile''" and wrap = "\<lambda>s w. s"
        and sourceBody = "''namespace A.B {}''" and stmts = "[]" and sourceMeta = None
        and n = "Node ''SourceFile'' []" and pre = "[]" and entries = "[]"
        and body = "Node ''ModuleDeclaration'' []" and rest = "[]"
        and e = "Error ''node kind must be either SourceFile or ModuleBlock.''"]
  by simp

section \<open>Several constructors in one class\<close>

lemma extractClass_members_last:
  assumes "\<forall>m \<in> set ms. memberExtracts wrap src m"
  shows "\<exists>cm' props'. extractClass_members wrap src ms cm props = Inr (cm', props') \<and>
           map_option Inr cm' =
             (if constructors ms = [] then map_option Inr cm
              else Some (extractConstructor wrap src (last (constructors ms))))"
  using assms
proof (induction ms arbitrary: cm props)
  case Nil
  then show ?case by simp
next
  case (Cons m ms)
  from Cons.prems have ms: "\<forall>m \<in> set ms. memberExtracts wrap src m" by simp
  show ?case
  proof (cases m)
    case (PropertySignature p)
    then have e: "extractClass_members wrap src (m # ms) cm props =
        extractClass_members wrap src ms cm props" "constructors (m # ms) = constructors ms"
      by simp_all
    show ?thesis unfolding e by (rule Cons.IH [OF ms])
  next
    case (Constructor c)
    with Cons.prems obtain x where x: "extractConstructor wrap src c = Inr x"
      by (cases "extractConstructor wrap src c") auto
    with Constructor have e: "extractClass_members wrap src (m # ms) cm props =
        extractClass_members wrap src ms (Some x) props" "constructors (m # ms) = c # constructors ms"
      by simp_all
    from Cons.IH [OF ms, of "Some x" props]
    obtain cm' props' where r: "extractClass_members wrap src ms (Some x) props = Inr (cm', props')"
      and l: "map_option Inr cm' =
             (if constructors ms = [] then map_option Inr (Some x)
              else Some (extractConstructor wrap src (last (constructors ms))))"
      by blast
    from l x have "map_option Inr cm' =
        Some (extractConstructor wrap src (last (c # constructors ms)))"
      by (cases "constructors ms = []") simp_all
    with r show ?thesis unfolding e by simp
  next
    case (PropertyDeclaration p)
    with Cons.prems obtain f where f: "extractNodeMeta wrap src p = Inr f"
      by (cases "extractNodeMeta wrap src p") auto
    with PropertyDeclaration have e: "extractClass_members wrap src (m # ms) cm props =
        extractClass_members wrap src ms cm (props @ [f])" "constructors (m # ms) = constructors ms"
      by simp_all
    show ?thesis unfolding e by (rule Cons.IH [OF ms])
  next
    case (OtherMember k)
    then have e: "extractClass_members wrap src (m # ms) cm props =
        extractClass_members wrap src ms cm props" "constructors (m # ms) = constructors ms"
      by simp_all
    show ?thesis unfolding e by (rule Cons.IH [OF ms])
  qed
qed

text \<open>
  Claim C10. For a class with a name and at least one constructor member (so also for
  more than one), each of whose members extracts by itself, \<open>extractClass\<close> throws
  nothing, and the \<open>constructorMeta\<close> of its result is the metadata of the last
  constructor in member order.
\<close>

theorem extractClass_last_constructor:
  assumes "name classNode = Some n"
    and "\<forall>m \<in> set (members classNode). memberExtracts wrap sourceBody m"
    and "constructors (members classNode) \<noteq> []"
  shows "\<exists>cm props. extractClass wrap sourceBody classNode =
             Inr (ClassMeta (escapedText n) (Some cm) props) \<and>
           extractConstructor wrap sourceBody (last (constructors (members classNode))) = Inr cm"
proof -
  from extractClass_members_last [OF assms(2), of None "[]"] assms(3)
  obtain cm' props' where r: "extractClass_members wrap sourceBody (members classNode) None [] = Inr (cm', props')"
    and c: "map_option Inr cm' = Some (extractConstructor wrap sourceBody (last (constructors (members classNode))))"
    by auto
  from c obtain cm where "cm' = Some cm"
    and "extractConstructor wrap sourceBody (last (constructors (members classNode))) = Inr cm"
    by (cases cm') auto
  with r assms(1) show ?thesis by (simp add: extractClass_def)
qed

theorem extractClass_last_constructor_witness:
  "extractClass (\<lambda>s w. s)
     ''class P {\<newline>  // Makes a point.\<newline>  constructor(a: string)\<newline>  // From a number.\<newline>  constructor(a: number, b?: string)\<newline>}\<newline>''
     \<lparr>pos = 0, endpos = 113, name = Some (Name (Some ''P'')), type = None,
       members =
        [Constructor
          \<lparr>pos = 9, endpos = 54, name = None, type = None,
         parameters =
          [\<lparr>pos = 44, endpos = 53, name = Some (Name (Some ''a'')),
            type = Some (TypeNode ''StringKeyword'' None None None), questionToken = False\<rparr>]\<rparr>,
         Constructor
          \<lparr>pos = 54, endpos = 111, name = None, type = None,
         parameters =
          [\<lparr>pos = 89, endpos = 98, name = Some (Name (Some ''a'')),
            type = Some (TypeNode ''NumberKeyword'' None None None), questionToken = False\<rparr>,
           \<lparr>pos = 99, endpos = 110, name = Some (Name (Some ''b'')),
            type = Some (TypeNode ''StringKeyword'' None None None), questionToken = True\<rparr>]\<rparr>]\<rparr> =
   Inr (ClassMeta (Some ''P'')
       (Some (ConstructorMeta
         [(Some ''a'', \<lparr>optional = False, types = [JArray [JString ''number'']], comments = []\<rparr>),
          (Some ''b'', \<lparr>optional = True, types = [JArray [JString ''string'']], comments = []\<rparr>)]
         [''From a number.'']))
       [])"
  using extractClass_last_constructor
    [of "\<lparr>pos = 0, endpos = 113, name = Some (Name (Some ''P'')), type = None,
       members =
        [Constructor
          \<lparr>pos = 9, endpos = 54, name = None, type = None,
         parameters =
          [\<lparr>pos = 44, endpos = 53, name = Some (Name (Some ''a'')),
            type = Some (TypeNode ''StringKeyword'' None None None), questionToken = False\<rparr>]\<rparr>,
         Constructor
          \<lparr>pos = 54, endpos = 111, name = None, type = None,
         parameters =
          [\<lparr>pos = 89, endpos = 98, name = Some (Name (Some ''a'')),
            type = Some (TypeNode ''NumberKeyword'' None None None), questionToken = False\<rparr>,
           \<lparr>pos = 99, endpos = 110, name = Some (Name (Some ''b'')),
            type = Some (TypeNode ''StringKeyword'' None None None), questionToken = True\<rparr>]\<rparr>]\<rparr>"
      "Name (Some ''P'')" "\<lambda>s w. s"
      "''class P {\<newline>  // Makes a point.\<newline>  constructor(a: string)\<newline>  // From a number.\<newline>  constructor(a: number, b?: string)\<newline>}\<newline>''"]
  by (simp add: eval_defs extractClass_def extractConstructor_def)

section \<open>Comment association\<close>





lemma lines_code_stops:
  "commentMatch c = None \<Longrightarrow> \<not> blankMatch c \<Longrightarrow>
     extractNodeComments_lines (c # rest) cs True False = cs"
  by simp




text \<open>
  Claim C4. The claim is that the comment text in the metadata of a member is wrapped
  to 80 columns. The code computes the wrapped text as the value that
  \<open>extractNodeComments\<close> returns, and no caller uses that value: the metadata holds the
  paragraphs as they were collected. A comment line of 99 characters, with spaces to
  break at, stays one string of 99 characters, whatever \<open>wrap\<close> does.
\<close>

theorem extractNodeMeta_comments_not_wrapped:
  "extractNodeMeta wrap
      ''\<newline>  // The identifier of the record, unique within its table and never reused after the record is deleted.\<newline>  id: string''
      \<lparr>pos = 0, endpos = 118, name = Some (Name (Some ''id'')),
       type = Some (TypeNode ''StringKeyword'' None None None), questionToken = False\<rparr> =
     Inr (Some ''id'',
       \<lparr>optional = False, types = [JArray [JString ''string'']],
        comments =
          [''The identifier of the record, unique within its table and never reused after the record is deleted.'']\<rparr>) \<and>
   length ''The identifier of the record, unique within its table and never reused after the record is deleted.'' = 99"
  by (simp add: eval_defs)

section \<open>The layout of the markdown\<close>

text \<open>
  The loop of \<open>toMarkdown\<close> adds to the text so far a line feed, unless the text is
  empty, and the text of the entry rendered alone.
\<close>

lemma toMarkdown_loop_step:
  "toMarkdown_loop (e # es) markdown =
     toMarkdown_loop es
       ((if markdown = [] then [] else markdown @ ''\<newline>'') @ toMarkdown_loop [e] [])"
  by (cases e) (simp add: Let_def split: option.splits)

lemma toMarkdown_loop_single_nonempty: "toMarkdown_loop [e] [] \<noteq> []"
  by (cases e) (simp add: Let_def split: option.splits)

lemma toMarkdown_loop_nonempty:
  "markdown \<noteq> [] \<Longrightarrow>
     toMarkdown_loop es markdown =
       markdown @ concat (map (\<lambda>e. ''\<newline>'' @ toMarkdown_loop [e] []) es)"
proof (induction es arbitrary: markdown)
  case Nil
  show ?case by simp
next
  case (Cons e es)
  have "toMarkdown_loop (e # es) markdown =
      toMarkdown_loop es (markdown @ ''\<newline>'' @ toMarkdown_loop [e] [])"
    using Cons.prems by (subst toMarkdown_loop_step) simp
  also have "\<dots> = (markdown @ ''\<newline>'' @ toMarkdown_loop [e] []) @
      concat (map (\<lambda>e. ''\<newline>'' @ toMarkdown_loop [e] []) es)"
    using Cons.prems by (intro Cons.IH) simp
  finally show ?case by simp
qed

lemma join_concat:
  "join sep (x # xs) = x @ concat (map (\<lambda>y. sep @ y) xs)"
  by (induction xs arbitrary: x) auto

lemma toMarkdown_loop_join:
  "toMarkdown_loop es [] = join ''\<newline>'' (map (\<lambda>e. toMarkdown_loop [e] []) es)"
proof (cases es)
  case Nil
  then show ?thesis by simp
next
  case (Cons e es')
  have "toMarkdown_loop (e # es') [] = toMarkdown_loop es' (toMarkdown_loop [e] [])"
    by (subst toMarkdown_loop_step) simp
  also have "\<dots> = toMarkdown_loop [e] [] @
      concat (map (\<lambda>e. ''\<newline>'' @ toMarkdown_loop [e] []) es')"
    by (rule toMarkdown_loop_nonempty [OF toMarkdown_loop_single_nonempty])
  finally show ?thesis using Cons by (simp add: join_concat comp_def)
qed

lemma addParamsToMarkdown_loop_append:
  "addParamsToMarkdown_loop (ps @ qs) markdown =
     addParamsToMarkdown_loop qs (addParamsToMarkdown_loop ps markdown)"
  by (induction ps arbitrary: markdown) auto

lemma addParamsToMarkdown_last:
  "ps \<noteq> [] \<Longrightarrow> addParamsToMarkdown ps \<noteq> [] \<and> last (addParamsToMarkdown ps) = CHR 0x0A"
proof (induction ps rule: rev_induct)
  case Nil
  then show ?case by simp
next
  case (snoc p ps)
  obtain paramName paramMeta where "p = (paramName, paramMeta)" by (cases p)
  then show ?case
    unfolding addParamsToMarkdown_def addParamsToMarkdown_loop_append
    by (simp add: Let_def)
qed

lemma entry_InterfaceMeta:
  "toMarkdown_loop [(kind, InterfaceMeta n props)] [] =
     ''## '' @ kind @ '': '' @ template n @ ''\<newline>'' @
     (if props = [] then []
      else ''\<newline>### Properties\<newline>\<newline>'' @ addParamsToMarkdown props)"
  by (simp add: Let_def)

lemma entry_ClassMeta_None:
  "toMarkdown_loop [(kind, ClassMeta n None props)] [] =
     ''## '' @ kind @ '': '' @ template n @ ''\<newline>'' @
     (if props = [] then []
      else ''\<newline>### Properties\<newline>\<newline>'' @ addParamsToMarkdown props)"
  by (simp add: Let_def)

lemma entry_ClassMeta_Some:
  "toMarkdown_loop [(kind, ClassMeta n (Some cm) props)] [] =
     ''## '' @ kind @ '': '' @ template n @ ''\<newline>'' @
     ''\<newline>'' @ join ''\<newline>\<newline>'' (cm_comments cm) @ ''\<newline>\<newline>'' @
     addParamsToMarkdown (cm_params cm) @
     (if props = [] then []
      else ''\<newline>### Properties\<newline>\<newline>'' @ addParamsToMarkdown props)"
  by (simp add: Let_def)

lemma entry_FunctionMeta:
  "toMarkdown_loop [(kind, FunctionMeta n params returnTypes)] [] =
     ''## '' @ kind @ '': '' @ template n @ ''\<newline>'' @
     ''\<newline>### Parameters\<newline>'' @
     (if params = [] then [] else ''\<newline>'' @ addParamsToMarkdown params)"
  by (simp add: Let_def)


lemma last_snoc_newline: "last (xs @ ''\<newline>'') = CHR 0x0A"
  by simp

lemma last_append_params:
  "ps \<noteq> [] \<Longrightarrow> last (xs @ addParamsToMarkdown ps) = CHR 0x0A"
  using addParamsToMarkdown_last [of ps] by simp

lemma entry_last: "last (toMarkdown_loop [(kind, meta)] []) = CHR 0x0A"
proof (cases meta)
  case (InterfaceMeta n props)
  show ?thesis
  proof (cases "props = []")
    case True
    then have "toMarkdown_loop [(kind, meta)] [] =
        (''## '' @ kind @ '': '' @ template n) @ ''\<newline>''"
      unfolding InterfaceMeta entry_InterfaceMeta by simp
    then show ?thesis by (simp only: last_snoc_newline)
  next
    case False
    then have "toMarkdown_loop [(kind, meta)] [] =
        (''## '' @ kind @ '': '' @ template n @ ''\<newline>'' @
          ''\<newline>### Properties\<newline>\<newline>'') @ addParamsToMarkdown props"
      unfolding InterfaceMeta entry_InterfaceMeta by simp
    then show ?thesis by (simp only: last_append_params [OF False])
  qed
next
  case (ClassMeta n constructorMeta props)
  show ?thesis
  proof (cases "props = []")
    case False
    have "\<exists>xs. toMarkdown_loop [(kind, meta)] [] = xs @ addParamsToMarkdown props"
    proof (cases constructorMeta)
      case None
      have "toMarkdown_loop [(kind, meta)] [] =
        (''## '' @ kind @ '': '' @ template n @ ''\<newline>'' @
          ''\<newline>### Properties\<newline>\<newline>'') @ addParamsToMarkdown props"
        unfolding ClassMeta None entry_ClassMeta_None using False by simp
      then show ?thesis by blast
    next
      case (Some cm)
      have "toMarkdown_loop [(kind, meta)] [] =
        (''## '' @ kind @ '': '' @ template n @ ''\<newline>'' @
         ''\<newline>'' @ join ''\<newline>\<newline>'' (cm_comments cm) @ ''\<newline>\<newline>'' @
         addParamsToMarkdown (cm_params cm) @
          ''\<newline>### Properties\<newline>\<newline>'') @ addParamsToMarkdown props"
        unfolding ClassMeta Some entry_ClassMeta_Some using False by simp
      then show ?thesis by blast
    qed
    then obtain xs where "toMarkdown_loop [(kind, meta)] [] = xs @ addParamsToMarkdown props" ..
    then show ?thesis by (simp only: last_append_params [OF False])
  next
    case True
    show ?thesis
    proof (cases constructorMeta)
      case None
      have "toMarkdown_loop [(kind, meta)] [] =
        (''## '' @ kind @ '': '' @ template n) @ ''\<newline>''"
        unfolding ClassMeta None entry_ClassMeta_None using True by simp
      then show ?thesis by (simp only: last_snoc_newline)
    next
      case (Some cm)
      show ?thesis
      proof (cases "cm_params cm = []")
        case e: True
        have "toMarkdown_loop [(kind, meta)] [] =
          (''## '' @ kind @ '': '' @ template n @ ''\<newline>'' @
           ''\<newline>'' @ join ''\<newline>\<newline>'' (cm_comments cm) @ ''\<newline>'') @ ''\<newline>''"
          unfolding ClassMeta Some entry_ClassMeta_Some using True e
          by (simp add: addParamsToMarkdown_def)
        then show ?thesis by (simp only: last_snoc_newline)
      next
        case ne: False
        have "toMarkdown_loop [(kind, meta)] [] =
          (''## '' @ kind @ '': '' @ template n @ ''\<newline>'' @
           ''\<newline>'' @ join ''\<newline>\<newline>'' (cm_comments cm) @ ''\<newline>\<newline>'') @
           addParamsToMarkdown (cm_params cm)"
          unfolding ClassMeta Some entry_ClassMeta_Some using True by simp
        then show ?thesis by (simp only: last_append_params [OF ne])
      qed
    qed
  qed
next
  case (FunctionMeta n params returnTypes)
  show ?thesis
  proof (cases "params = []")
    case True
    then have "toMarkdown_loop [(kind, meta)] [] =
        (''## '' @ kind @ '': '' @ template n @ ''\<newline>'' @ ''\<newline>### Parameters'') @
        ''\<newline>''"
      unfolding FunctionMeta entry_FunctionMeta by simp
    then show ?thesis by (simp only: last_snoc_newline)
  next
    case False
    then have "toMarkdown_loop [(kind, meta)] [] =
        (''## '' @ kind @ '': '' @ template n @ ''\<newline>'' @
          ''\<newline>### Parameters\<newline>'' @ ''\<newline>'') @ addParamsToMarkdown params"
      unfolding FunctionMeta entry_FunctionMeta by simp
    then show ?thesis by (simp only: last_append_params [OF False])
  qed
qed

text \<open>
  The layout of the rendered text. It is the texts of the entries, each rendered
  alone, joined by one line feed, and the text of an entry ends with a line feed.
  After the heading line (and the constructor section of a class), an entry with a
  non-empty \<open>props\<close> list has the heading \<open>### Properties\<close>, a blank line and the
  bullets of the list, and one with an empty list has nothing; a function entry, which
  has \<open>params\<close> and no \<open>props\<close>, always has the heading \<open>### Parameters\<close>, followed
  by a blank line and bullets only when the list is not empty.
\<close>

lemma toMarkdown_layout:
  "toMarkdown \<lparr>kSourceBody = text, structure = entries\<rparr> =
     join ''\<newline>''
       (map (\<lambda>e. toMarkdown \<lparr>kSourceBody = text, structure = [e]\<rparr>) entries) \<and>
   last (toMarkdown \<lparr>kSourceBody = text, structure = [(kind, meta)]\<rparr>) = CHR 0x0A \<and>
   toMarkdown \<lparr>kSourceBody = text, structure = [(kind, InterfaceMeta n props)]\<rparr> =
     ''## '' @ kind @ '': '' @ template n @ ''\<newline>'' @
     (if props = [] then []
      else ''\<newline>### Properties\<newline>\<newline>'' @ addParamsToMarkdown props) \<and>
   toMarkdown \<lparr>kSourceBody = text, structure = [(kind, ClassMeta n None props)]\<rparr> =
     ''## '' @ kind @ '': '' @ template n @ ''\<newline>'' @
     (if props = [] then []
      else ''\<newline>### Properties\<newline>\<newline>'' @ addParamsToMarkdown props) \<and>
   toMarkdown \<lparr>kSourceBody = text, structure = [(kind, ClassMeta n (Some cm) props)]\<rparr> =
     ''## '' @ kind @ '': '' @ template n @ ''\<newline>'' @
     ''\<newline>'' @ join ''\<newline>\<newline>'' (cm_comments cm) @ ''\<newline>\<newline>'' @
     addParamsToMarkdown (cm_params cm) @
     (if props = [] then []
      else ''\<newline>### Properties\<newline>\<newline>'' @ addParamsToMarkdown props) \<and>
   toMarkdown \<lparr>kSourceBody = text, structure = [(kind, FunctionMeta n params returnTypes)]\<rparr> =
     ''## '' @ kind @ '': '' @ template n @ ''\<newline>'' @
     ''\<newline>### Parameters\<newline>'' @
     (if params = [] then [] else ''\<newline>'' @ addParamsToMarkdown params) \<and>
   addParamsToMarkdown [] = []"
proof (intro conjI)
  show "toMarkdown \<lparr>kSourceBody = text, structure = entries\<rparr> =
     join ''\<newline>''
       (map (\<lambda>e. toMarkdown \<lparr>kSourceBody = text, structure = [e]\<rparr>) entries)"
    unfolding toMarkdown_def typejuice.simps by (rule toMarkdown_loop_join)
  show "last (toMarkdown \<lparr>kSourceBody = text, structure = [(kind, meta)]\<rparr>) = CHR 0x0A"
    by (simp only: toMarkdown_def typejuice.simps entry_last)
  show "toMarkdown \<lparr>kSourceBody = text, structure = [(kind, InterfaceMeta n props)]\<rparr> =
     ''## '' @ kind @ '': '' @ template n @ ''\<newline>'' @
     (if props = [] then []
      else ''\<newline>### Properties\<newline>\<newline>'' @ addParamsToMarkdown props)"
    by (simp only: toMarkdown_def typejuice.simps entry_InterfaceMeta)
  show "toMarkdown \<lparr>kSourceBody = text, structure = [(kind, ClassMeta n None props)]\<rparr> =
     ''## '' @ kind @ '': '' @ template n @ ''\<newline>'' @
     (if props = [] then []
      else ''\<newline>### Properties\<newline>\<newline>'' @ addParamsToMarkdown props)"
    by (simp only: toMarkdown_def typejuice.simps entry_ClassMeta_None)
  show "toMarkdown \<lparr>kSourceBody = text, structure = [(kind, ClassMeta n (Some cm) props)]\<rparr> =
     ''## '' @ kind @ '': '' @ template n @ ''\<newline>'' @
     ''\<newline>'' @ join ''\<newline>\<newline>'' (cm_comments cm) @ ''\<newline>\<newline>'' @
     addParamsToMarkdown (cm_params cm) @
     (if props = [] then []
      else ''\<newline>### Properties\<newline>\<newline>'' @ addParamsToMarkdown props)"
    by (simp only: toMarkdown_def typejuice.simps entry_ClassMeta_Some)
  show "toMarkdown \<lparr>kSourceBody = text, structure = [(kind, FunctionMeta n params returnTypes)]\<rparr> =
     ''## '' @ kind @ '': '' @ template n @ ''\<newline>'' @
     ''\<newline>### Parameters\<newline>'' @
     (if params = [] then [] else ''\<newline>'' @ addParamsToMarkdown params)"
    by (simp only: toMarkdown_def typejuice.simps entry_FunctionMeta)
  show "addParamsToMarkdown [] = []"
    by (simp add: addParamsToMarkdown_def)
qed

text \<open>The example of an interface with a required and an optional property.\<close>

lemma toMarkdown_layout_example:
  "toMarkdown \<lparr>kSourceBody = [], structure =
      [(''Interface'', InterfaceMeta (Some ''Example'')
         [(Some ''id'', \<lparr>optional = False, types = [JArray [JString ''string'']],
             comments = [''Unique identifier.'']\<rparr>),
          (Some ''count'', \<lparr>optional = True, types = [JArray [JString ''number'']],
             comments = [''Occurrence count.'']\<rparr>)]),
       (''Function'', FunctionMeta (Some ''f'') [] [JArray [JString ''string'']]),
       (''Class'', ClassMeta (Some ''C'') None [])]\<rparr> =
   ''## Interface: Example\<newline>\<newline>### Properties\<newline>\<newline>- **`id`**: **string**\<newline>  Unique identifier.\<newline>- **`count`**: **number** (optional)\<newline>  Occurrence count.\<newline>\<newline>## Function: f\<newline>\<newline>### Parameters\<newline>\<newline>## Class: C\<newline>''"
  using toMarkdown_layout [of "[]" "[(''Interface'', InterfaceMeta (Some ''Example'')
         [(Some ''id'', \<lparr>optional = False, types = [JArray [JString ''string'']],
             comments = [''Unique identifier.'']\<rparr>),
          (Some ''count'', \<lparr>optional = True, types = [JArray [JString ''number'']],
             comments = [''Occurrence count.'']\<rparr>)]),
       (''Function'', FunctionMeta (Some ''f'') [] [JArray [JString ''string'']]),
       (''Class'', ClassMeta (Some ''C'') None [])]"]
  by (simp add: toMarkdown_def addParamsToMarkdown_def template_def Let_def)

text \<open>
  Claim C6. The claim is that entries are separated by a single blank line. The
  constructor section of a class ends with a line feed before its bullets also when
  there are none, where the parameter section of a function adds that line feed only
  for a non-empty list. So the text of a class whose constructor has no parameters and
  which has no properties ends with blank lines of its own: for
  \<open>class A { constructor() }\<close> followed by \<open>interface B {}\<close> there are four blank
  lines between the two heading lines.
\<close>

theorem toMarkdown_constructor_blank_lines:
  "map_sum id toMarkdown
     (TypeJuice wrap
       ''class A {\<newline>  constructor()\<newline>}\<newline>interface B {}\<newline>''
       (Node ''SourceFile''
        [ClassDeclaration
          \<lparr>pos = 0, endpos = 27, name = Some (Name (Some ''A'')), type = None,
           members =
            [Constructor \<lparr>pos = 9, endpos = 25, name = None, type = None,
               parameters = []\<rparr>]\<rparr>,
         InterfaceDeclaration
          \<lparr>pos = 27, endpos = 42, name = Some (Name (Some ''B'')), type = None,
           members = []\<rparr>])) =
   Inr ''## Class: A\<newline>\<newline>\<newline>\<newline>\<newline>## Interface: B\<newline>''"
  by (simp add: TypeJuice_def toMarkdown_def extractClass_def extractInterface_def
      extractConstructor_def addParamsToMarkdown_def template_def eval_defs Let_def)

end
